theory Spec2Isabelle
  imports Complex_Main
begin

section \<open>Python values\<close>

text \<open>
  The request body arrives as parsed JSON, so every value the handler of
  \<^verbatim>\<open>src/diffusion/qwen_server.py\<close> touches is one of the Python values below.
  A float is the real number it denotes, or one of the non-finite values that
  \<^verbatim>\<open>json.loads\<close> also accepts. A dictionary is the list of its items (keys distinct).
\<close>

datatype pyfloat = Finite real | Infinite bool | NaN

datatype pyval =
    PyNone
  | PyBool bool
  | PyInt int
  | PyFloat pyfloat
  | PyStr string
  | PyList "pyval list"
  | PyDict "(string \<times> pyval) list"

text \<open>Python truth value testing, as \<^verbatim>\<open>not x\<close> and \<^verbatim>\<open>all([...])\<close> apply it.\<close>

fun truthy :: "pyval \<Rightarrow> bool" where
  "truthy PyNone = False"
| "truthy (PyBool b) = b"
| "truthy (PyInt i) = (i \<noteq> 0)"
| "truthy (PyFloat (Finite r)) = (r \<noteq> 0)"
| "truthy (PyFloat (Infinite s)) = True"
| "truthy (PyFloat NaN) = True"
| "truthy (PyStr s) = (s \<noteq> [])"
| "truthy (PyList xs) = (xs \<noteq> [])"
| "truthy (PyDict kvs) = (kvs \<noteq> [])"

text \<open>
  The exceptions the handler can meet: the ones the Python runtime raises inside the
  handler itself, and the ones raised by a collaborator (the web framework, torch, the
  diffusion pipeline, boto3), which carry their own message.
\<close>

datatype exn = TypeError | ValueError | AttributeError | External string

text \<open>\<^verbatim>\<open>data.get(key, default)\<close>: a key that is present wins, whatever its value.\<close>

definition dict_get :: "(string \<rightharpoonup> pyval) \<Rightarrow> string \<Rightarrow> pyval \<Rightarrow> pyval" where
  "dict_get d k dflt = (case d k of None \<Rightarrow> dflt | Some v \<Rightarrow> v)"

text \<open>\<^verbatim>\<open>os.getenv(name)\<close> and \<^verbatim>\<open>os.getenv(name, default)\<close> with a string default.\<close>

definition getenv :: "(string \<rightharpoonup> string) \<Rightarrow> string \<Rightarrow> pyval" where
  "getenv env name = (case env name of None \<Rightarrow> PyNone | Some v \<Rightarrow> PyStr v)"

definition getenv_default :: "(string \<rightharpoonup> string) \<Rightarrow> string \<Rightarrow> string \<Rightarrow> pyval" where
  "getenv_default env name dflt = (case env name of None \<Rightarrow> PyStr dflt | Some v \<Rightarrow> PyStr v)"

subsection \<open>The builtin \<^verbatim>\<open>int\<close> on a string\<close>

text \<open>
  \<^verbatim>\<open>int(s)\<close> in base 10 on an ASCII string: surrounding whitespace (space, tab, line
  feed, vertical tab, form feed, carriage return) is stripped, one sign is allowed, then
  decimal digits, where single underscores may separate digits. Anything else raises
  \<^verbatim>\<open>ValueError\<close> (here \<open>None\<close>). Digits outside ASCII and the limit on the number of
  digits of recent interpreters are left out.
\<close>

definition is_space :: "char \<Rightarrow> bool" where
  "is_space c = ((of_char c :: nat) \<in> {9, 10, 11, 12, 13, 32})"

definition is_digit :: "char \<Rightarrow> bool" where
  "is_digit c = (48 \<le> (of_char c :: nat) \<and> (of_char c :: nat) \<le> 57)"

definition digit_val :: "char \<Rightarrow> nat" where
  "digit_val c = of_char c - 48"

definition strip :: "string \<Rightarrow> string" where
  "strip s = rev (dropWhile is_space (rev (dropWhile is_space s)))"

fun digits_value :: "nat \<Rightarrow> string \<Rightarrow> nat option" where
  "digits_value acc [] = Some acc"
| "digits_value acc (c # cs) =
     (if is_digit c then digits_value (acc * 10 + digit_val c) cs
      else if c = CHR ''_'' \<and> cs \<noteq> [] \<and> is_digit (hd cs) then digits_value acc cs
      else None)"

definition unsigned_int :: "string \<Rightarrow> nat option" where
  "unsigned_int u = (if u = [] \<or> \<not> is_digit (hd u) then None else digits_value 0 u)"

definition py_int :: "string \<Rightarrow> int option" where
  "py_int s =
     (case strip s of
        [] \<Rightarrow> None
      | c # cs \<Rightarrow>
          if c = CHR ''-'' then map_option (\<lambda>n. - int n) (unsigned_int cs)
          else if c = CHR ''+'' then map_option int (unsigned_int cs)
          else map_option int (unsigned_int (c # cs)))"

text \<open>
  \<^verbatim>\<open>int(os.getenv(name, d))\<close> with an integer literal \<open>d\<close>: the literal when the variable is
  unset, the parsed value when it is set, \<^verbatim>\<open>ValueError\<close> when it does not parse.
\<close>

definition int_getenv :: "(string \<rightharpoonup> string) \<Rightarrow> string \<Rightarrow> int \<Rightarrow> exn + int" where
  "int_getenv env name dflt =
     (case env name of
        None \<Rightarrow> Inr dflt
      | Some s \<Rightarrow> (case py_int s of None \<Rightarrow> Inl ValueError | Some n \<Rightarrow> Inr n))"

text \<open>
  \<^verbatim>\<open>float(os.getenv(name, d))\<close> with a float literal \<open>d\<close>. The builtin \<^verbatim>\<open>float\<close> on a
  string is a parameter \<open>pf\<close>: \<open>None\<close> where it raises \<^verbatim>\<open>ValueError\<close>.
\<close>

definition float_getenv ::
  "(string \<rightharpoonup> string) \<Rightarrow> (string \<Rightarrow> pyfloat option) \<Rightarrow> string \<Rightarrow> pyfloat \<Rightarrow> exn + pyfloat" where
  "float_getenv env pf name dflt =
     (case env name of
        None \<Rightarrow> Inr dflt
      | Some s \<Rightarrow> (case pf s of None \<Rightarrow> Inl ValueError | Some x \<Rightarrow> Inr x))"

section \<open>The aspect-ratio table\<close>

text \<open>The dictionary \<^verbatim>\<open>aspect_ratios\<close> of \<^verbatim>\<open>generate_image\<close>, in insertion order.\<close>

definition aspect_ratios :: "(string \<times> (nat \<times> nat)) list" where
  "aspect_ratios =
     [(''1:1'', (1328, 1328)),
      (''16:9'', (1024, 768)),
      (''9:16'', (928, 1664)),
      (''4:3'', (1472, 1140)),
      (''3:4'', (1140, 1472)),
      (''3:2'', (1584, 1056)),
      (''2:3'', (1056, 1584))]"

text \<open>
  \<^verbatim>\<open>aspect_ratio not in aspect_ratios\<close> followed by \<^verbatim>\<open>aspect_ratios[aspect_ratio]\<close>:
  a list or a dictionary is unhashable, so the membership test raises
  \<^verbatim>\<open>TypeError\<close>; a string is looked up; every other value is hashable and is no key.
\<close>

fun aspect_lookup :: "pyval \<Rightarrow> exn + (nat \<times> nat) option" where
  "aspect_lookup (PyStr s) = Inr (map_of aspect_ratios s)"
| "aspect_lookup (PyList xs) = Inl TypeError"
| "aspect_lookup (PyDict kvs) = Inl TypeError"
| "aspect_lookup v = Inr None"

text \<open>\<^verbatim>\<open>str(list(aspect_ratios.keys()))\<close>: the keys, each in single quotes.\<close>

fun join_comma :: "string list \<Rightarrow> string" where
  "join_comma [] = []"
| "join_comma [x] = x"
| "join_comma (x # y # ys) = x @ '', '' @ join_comma (y # ys)"

definition repr_keys :: "string list \<Rightarrow> string" where
  "repr_keys ks = ''['' @ join_comma (map (\<lambda>k. [CHR 0x27] @ k @ [CHR 0x27]) ks) @ '']''"

definition invalid_aspect_message :: string where
  "invalid_aspect_message = ''Invalid aspect ratio. Choose from: '' @ repr_keys (map fst aspect_ratios)"

section \<open>Responses\<close>

text \<open>
  The body of an error response is \<^verbatim>\<open>{"error": m}\<close>, where \<open>m\<close> is a string literal of
  the source or \<^verbatim>\<open>str(e)\<close> of the exception caught.
\<close>

datatype message = Literal string | Str exn

record metadata =
  md_prompt :: pyval
  md_negative_prompt :: pyval
  md_aspect_ratio :: pyval
  md_width :: nat
  md_height :: nat
  md_seed :: pyval
  md_timestamp :: string

record success =
  image_url :: string
  body_s3_bucket :: pyval
  body_s3_key :: pyval
  body_metadata :: metadata

datatype body = ErrorBody message | SuccessBody success

type_synonym response = "body \<times> nat"

definition missing_prompt :: response where
  "missing_prompt = (ErrorBody (Literal ''Missing required field: prompt''), 400)"

definition missing_s3 :: response where
  "missing_s3 =
     (ErrorBody (Literal
        ''S3 configuration missing. Provide in request or set in environment variables''), 400)"

definition invalid_aspect :: response where
  "invalid_aspect = (ErrorBody (Literal invalid_aspect_message), 400)"

section \<open>Validation and resolution of the parameters\<close>

text \<open>The local variables of \<^verbatim>\<open>generate_image\<close> once line 114 has run.\<close>

record resolved =
  prompt :: pyval
  s3_bucket :: pyval
  aws_access_key_id :: pyval
  aws_secret_access_key :: pyval
  aws_region :: pyval
  negative_prompt :: pyval
  positive_magic :: pyval
  aspect_ratio :: pyval
  num_inference_steps :: pyval
  true_cfg_scale :: pyval
  seed :: pyval
  width :: nat
  height :: nat

datatype 'a stage = Return response | Raise exn | Continue 'a

text \<open>
  Lines 78 to 114 of \<^verbatim>\<open>generate_image\<close>, in the order of the source: the prompt
  check, the storage settings and their check, the remaining defaults (the three
  numeric defaults are computed from the environment before the request is looked at,
  as the arguments of \<^verbatim>\<open>data.get\<close> are evaluated first), and the aspect-ratio check.
\<close>

definition resolve_parameters ::
  "(string \<rightharpoonup> string) \<Rightarrow> (string \<Rightarrow> pyfloat option) \<Rightarrow> (string \<rightharpoonup> pyval) \<Rightarrow> resolved stage" where
  "resolve_parameters env pf data =
     (let p = dict_get data ''prompt'' PyNone in
      if \<not> truthy p then Return missing_prompt
      else
        let bucket = dict_get data ''s3_bucket'' (getenv env ''S3_BUCKET'');
            key_id = dict_get data ''aws_access_key_id'' (getenv env ''AWS_ACCESS_KEY_ID'');
            secret = dict_get data ''aws_secret_access_key'' (getenv env ''AWS_SECRET_ACCESS_KEY'');
            region = dict_get data ''aws_region'' (getenv_default env ''AWS_REGION'' ''us-east-1'')
        in
        if \<not> (truthy bucket \<and> truthy key_id \<and> truthy secret) then Return missing_s3
        else
          let neg = dict_get data ''negative_prompt''
                      (PyStr ''ugly, deformed, disfigured, poor details, bad anatomy'');
              magic = dict_get data ''positive_magic'' (PyStr ''Ultra HD, 4K, cinematic composition.'');
              ratio = dict_get data ''aspect_ratio'' (PyStr ''16:9'')
          in
          case int_getenv env ''NUM_INFERENCE_STEPS'' 50 of
            Inl e \<Rightarrow> Raise e
          | Inr steps_default \<Rightarrow>
          (case float_getenv env pf ''TRUE_CFG_SCALE'' (Finite 4) of
            Inl e \<Rightarrow> Raise e
          | Inr cfg_default \<Rightarrow>
          (case int_getenv env ''DEFAULT_SEED'' 42 of
            Inl e \<Rightarrow> Raise e
          | Inr seed_default \<Rightarrow>
          (case aspect_lookup ratio of
            Inl e \<Rightarrow> Raise e
          | Inr None \<Rightarrow> Return invalid_aspect
          | Inr (Some (w, h)) \<Rightarrow>
              Continue
                \<lparr>prompt = p, s3_bucket = bucket, aws_access_key_id = key_id,
                 aws_secret_access_key = secret, aws_region = region,
                 negative_prompt = neg, positive_magic = magic, aspect_ratio = ratio,
                 num_inference_steps = dict_get data ''num_inference_steps'' (PyInt steps_default),
                 true_cfg_scale = dict_get data ''true_cfg_scale'' (PyFloat cfg_default),
                 seed = dict_get data ''seed'' (PyInt seed_default),
                 width = w, height = h\<rparr>))))"

section \<open>The collaborators\<close>

text \<open>
  The wall clock read by \<^verbatim>\<open>datetime.now()\<close> and its rendering by
  \<^verbatim>\<open>strftime('%Y%m%d_%H%M%S')\<close>: every field zero-padded to its width (four digits for
  the year, which for a current date has four).
\<close>

record datetime =
  dt_year :: nat
  dt_month :: nat
  dt_day :: nat
  dt_hour :: nat
  dt_minute :: nat
  dt_second :: nat

definition digit_char :: "nat \<Rightarrow> char" where
  "digit_char d = ''0123456789'' ! (d mod 10)"

fun zero_padded :: "nat \<Rightarrow> nat \<Rightarrow> string" where
  "zero_padded 0 n = []"
| "zero_padded (Suc k) n = zero_padded k (n div 10) @ [digit_char n]"

definition strftime :: "datetime \<Rightarrow> string" where
  "strftime t =
     zero_padded 4 (dt_year t) @ zero_padded 2 (dt_month t) @ zero_padded 2 (dt_day t) @ ''_'' @
     zero_padded 2 (dt_hour t) @ zero_padded 2 (dt_minute t) @ zero_padded 2 (dt_second t)"

text \<open>The generator \<^verbatim>\<open>torch.Generator(device=device).manual_seed(seed)\<close>.\<close>

record generator =
  gen_device :: string
  gen_seed :: pyval

text \<open>The keyword arguments of the call \<^verbatim>\<open>pipe(...)\<close>.\<close>

record pipe_args =
  arg_prompt :: pyval
  arg_negative_prompt :: pyval
  arg_width :: nat
  arg_height :: nat
  arg_num_inference_steps :: pyval
  arg_true_cfg_scale :: pyval
  arg_generator :: generator

text \<open>The arguments of \<^verbatim>\<open>upload_to_s3\<close>.\<close>

record 'img upload_args =
  up_image :: 'img
  up_bucket :: pyval
  up_key :: pyval
  up_access_key_id :: pyval
  up_secret_access_key :: pyval
  up_region :: pyval

text \<open>
  Everything outside the handler that a run of it reads or calls: the process
  environment, the builtins \<^verbatim>\<open>float\<close> (on a string) and \<^verbatim>\<open>str\<close> (on a value that is not a
  string), whether CUDA is available, seeding a generator (\<open>Some e\<close> when torch raises),
  the pipeline call with \<^verbatim>\<open>.images[0]\<close> (an image, or the exception raised), the
  identifier \<^verbatim>\<open>str(uuid.uuid4())\<close>, the clock, and the boto3 client doing the PNG
  upload (\<open>Some e\<close> when it raises).
\<close>

record 'img world =
  environ :: "string \<rightharpoonup> string"
  py_float :: "string \<Rightarrow> pyfloat option"
  py_str :: "pyval \<Rightarrow> string"
  cuda_is_available :: bool
  manual_seed :: "string \<Rightarrow> pyval \<Rightarrow> exn option"
  pipe :: "pipe_args \<Rightarrow> exn + 'img"
  uuid4 :: string
  now :: datetime
  upload_fileobj :: "'img upload_args \<Rightarrow> exn option"

text \<open>A value inside an f-string.\<close>

definition format_value :: "'img world \<Rightarrow> pyval \<Rightarrow> string" where
  "format_value w v = (case v of PyStr s \<Rightarrow> s | _ \<Rightarrow> py_str w v)"

text \<open>
  \<^verbatim>\<open>upload_to_s3\<close>: the client is built and the PNG bytes are sent; a \<^verbatim>\<open>ClientError\<close> is
  logged and raised again, any other exception propagates as it is; on success the URL
  is formatted from bucket, region and key.
\<close>

definition upload_to_s3 :: "'img world \<Rightarrow> 'img upload_args \<Rightarrow> exn + string" where
  "upload_to_s3 w c =
     (case upload_fileobj w c of
        Some e \<Rightarrow> Inl e
      | None \<Rightarrow>
          Inr (''https://'' @ format_value w (up_bucket c) @ ''.s3.'' @ format_value w (up_region c) @
               ''.amazonaws.com/'' @ format_value w (up_key c)))"

section \<open>The request handler\<close>

text \<open>
  What a run of the handler produces: the response, and the calls it made to the
  pipeline and to \<^verbatim>\<open>upload_to_s3\<close>, in order.
\<close>

record 'img outcome =
  response :: response
  gateway_calls :: "pipe_args list"
  sink_calls :: "'img upload_args list"

text \<open>The \<^verbatim>\<open>except Exception\<close> clause: status 500 with \<^verbatim>\<open>str(e)\<close>.\<close>

definition failed :: "exn \<Rightarrow> pipe_args list \<Rightarrow> 'img upload_args list \<Rightarrow> 'img outcome" where
  "failed e g s = \<lparr>response = (ErrorBody (Str e), 500), gateway_calls = g, sink_calls = s\<rparr>"

text \<open>
  \<^verbatim>\<open>prompt[:100]\<close> in the log line: a string and a list can be sliced, any other value
  raises (\<^verbatim>\<open>TypeError\<close>; for a dictionary, \<^verbatim>\<open>KeyError\<close> from Python 3.12 on).
\<close>

fun slice_check :: "pyval \<Rightarrow> exn option" where
  "slice_check (PyStr s) = None"
| "slice_check (PyList xs) = None"
| "slice_check v = Some TypeError"

text \<open>\<^verbatim>\<open>a + b\<close> where one operand is known to be a string: both must be strings.\<close>

fun str_add :: "pyval \<Rightarrow> pyval \<Rightarrow> exn + pyval" where
  "str_add (PyStr a) (PyStr b) = Inr (PyStr (a @ b))"
| "str_add a b = Inl TypeError"

text \<open>Line 118: \<^verbatim>\<open>device = "cuda" if torch.cuda.is_available() else "cpu"\<close>.\<close>

definition torch_device :: "'img world \<Rightarrow> string" where
  "torch_device w = (if cuda_is_available w then ''cuda'' else ''cpu'')"

text \<open>Lines 116 to 149 of \<^verbatim>\<open>generate_image\<close>.\<close>

definition invoke_and_persist ::
  "'img world \<Rightarrow> (string \<rightharpoonup> pyval) \<Rightarrow> resolved \<Rightarrow> 'img outcome" where
  "invoke_and_persist w data r =
     (case slice_check (prompt r) of
        Some e \<Rightarrow> failed e [] []
      | None \<Rightarrow>
     (let device = torch_device w in
      case str_add (prompt r) (PyStr '' '') of
        Inl e \<Rightarrow> failed e [] []
      | Inr t \<Rightarrow>
     (case str_add t (positive_magic r) of
        Inl e \<Rightarrow> failed e [] []
      | Inr full_prompt \<Rightarrow>
     (case manual_seed w device (seed r) of
        Some e \<Rightarrow> failed e [] []
      | None \<Rightarrow>
     (let args = \<lparr>arg_prompt = full_prompt, arg_negative_prompt = negative_prompt r,
                  arg_width = width r, arg_height = height r,
                  arg_num_inference_steps = num_inference_steps r,
                  arg_true_cfg_scale = true_cfg_scale r,
                  arg_generator = \<lparr>gen_device = device, gen_seed = seed r\<rparr>\<rparr> in
      case pipe w args of
        Inl e \<Rightarrow> failed e [args] []
      | Inr img \<Rightarrow>
     (let image_id = uuid4 w;
          timestamp = strftime (now w);
          key = dict_get data ''s3_key''
                  (PyStr (''generated_images/'' @ timestamp @ ''_'' @ image_id @ ''.png''));
          call = \<lparr>up_image = img, up_bucket = s3_bucket r, up_key = key,
                  up_access_key_id = aws_access_key_id r,
                  up_secret_access_key = aws_secret_access_key r,
                  up_region = aws_region r\<rparr> in
      case upload_to_s3 w call of
        Inl e \<Rightarrow> failed e [args] [call]
      | Inr s3_url \<Rightarrow>
          \<lparr>response =
             (SuccessBody
                \<lparr>image_url = s3_url, body_s3_bucket = s3_bucket r, body_s3_key = key,
                 body_metadata =
                   \<lparr>md_prompt = prompt r, md_negative_prompt = negative_prompt r,
                    md_aspect_ratio = aspect_ratio r, md_width = width r,
                    md_height = height r, md_seed = seed r, md_timestamp = timestamp\<rparr>\<rparr>,
              200),
           gateway_calls = [args], sink_calls = [call]\<rparr>))))))"

text \<open>
  \<^verbatim>\<open>generate_image\<close>. The argument is what \<^verbatim>\<open>request.json\<close> gives: the parsed body, or
  the exception the framework raises for a body it cannot parse (raised inside the
  \<^verbatim>\<open>try\<close>). A parsed body that is no dictionary has no \<^verbatim>\<open>get\<close>.
\<close>

definition generate_image :: "'img world \<Rightarrow> exn + pyval \<Rightarrow> 'img outcome" where
  "generate_image w request_json =
     (case request_json of
        Inl e \<Rightarrow> failed e [] []
      | Inr (PyDict items) \<Rightarrow>
          (case resolve_parameters (environ w) (py_float w) (map_of items) of
             Return resp \<Rightarrow> \<lparr>response = resp, gateway_calls = [], sink_calls = []\<rparr>
           | Raise e \<Rightarrow> failed e [] []
           | Continue r \<Rightarrow> invoke_and_persist w (map_of items) r)
      | Inr other \<Rightarrow> failed AttributeError [] [])"

section \<open>The layering the specification describes\<close>

text \<open>
  The specification words the defaulting as a layered resolution with the precedence
  request, then environment, then hardcoded default. This is that function, written from
  the specification's words, to compare \<open>resolve_parameters\<close> with.
\<close>

definition layered :: "'a option \<Rightarrow> 'a option \<Rightarrow> 'a \<Rightarrow> 'a" where
  "layered from_request from_environment hardcoded =
     (case from_request of
        Some v \<Rightarrow> v
      | None \<Rightarrow> (case from_environment of Some v \<Rightarrow> v | None \<Rightarrow> hardcoded))"

section \<open>Example inputs\<close>

text \<open>An environment that configures the storage and nothing else.\<close>

definition storage_env :: "string \<rightharpoonup> string" where
  "storage_env =
     [''S3_BUCKET'' \<mapsto> ''images'', ''AWS_ACCESS_KEY_ID'' \<mapsto> ''AKIDEXAMPLE'',
      ''AWS_SECRET_ACCESS_KEY'' \<mapsto> ''s3cr3t'']"

text \<open>
  A world in which every collaborator succeeds: the pipeline returns image number 0,
  the upload goes through, the clock reads 9 March 2026, 04:05:06.
\<close>

definition example_world :: "(string \<rightharpoonup> string) \<Rightarrow> nat world" where
  "example_world env =
     \<lparr>environ = env,
      py_float = (\<lambda>s. if s = ''7.5'' then Some (Finite (15 / 2)) else None),
      py_str = (\<lambda>v. ''None''),
      cuda_is_available = False,
      manual_seed = (\<lambda>d s. None),
      pipe = (\<lambda>a. Inr 0),
      uuid4 = ''9f1c2d3e-0a4b-4c5d-8e6f-112233445566'',
      now = \<lparr>dt_year = 2026, dt_month = 3, dt_day = 9, dt_hour = 4, dt_minute = 5, dt_second = 6\<rparr>,
      upload_fileobj = (\<lambda>c. None)\<rparr>"

text \<open>An environment that also sets the step count, the guidance scale and the region.\<close>

definition tuned_env :: "string \<rightharpoonup> string" where
  "tuned_env =
     [''S3_BUCKET'' \<mapsto> ''images'', ''AWS_ACCESS_KEY_ID'' \<mapsto> ''AKIDEXAMPLE'',
      ''AWS_SECRET_ACCESS_KEY'' \<mapsto> ''s3cr3t'', ''NUM_INFERENCE_STEPS'' \<mapsto> ''30'',
      ''TRUE_CFG_SCALE'' \<mapsto> ''7.5'', ''AWS_REGION'' \<mapsto> ''eu-west-1'']"

section \<open>Properties of the resolution\<close>

lemma resolve_no_prompt:
  "\<not> truthy (dict_get data ''prompt'' PyNone) \<Longrightarrow>
   resolve_parameters env pf data = Return missing_prompt"
  by (simp add: resolve_parameters_def)

lemma resolve_no_storage:
  "truthy (dict_get data ''prompt'' PyNone) \<Longrightarrow>
   \<not> (truthy (dict_get data ''s3_bucket'' (getenv env ''S3_BUCKET'')) \<and>
      truthy (dict_get data ''aws_access_key_id'' (getenv env ''AWS_ACCESS_KEY_ID'')) \<and>
      truthy (dict_get data ''aws_secret_access_key'' (getenv env ''AWS_SECRET_ACCESS_KEY''))) \<Longrightarrow>
   resolve_parameters env pf data = Return missing_s3"
  by (simp add: resolve_parameters_def Let_def)

lemma resolve_checks_passed:
  assumes "truthy (dict_get data ''prompt'' PyNone)"
    and "truthy (dict_get data ''s3_bucket'' (getenv env ''S3_BUCKET''))"
    and "truthy (dict_get data ''aws_access_key_id'' (getenv env ''AWS_ACCESS_KEY_ID''))"
    and "truthy (dict_get data ''aws_secret_access_key'' (getenv env ''AWS_SECRET_ACCESS_KEY''))"
    and "int_getenv env ''NUM_INFERENCE_STEPS'' 50 = Inr st"
    and "float_getenv env pf ''TRUE_CFG_SCALE'' (Finite 4) = Inr cfg"
    and "int_getenv env ''DEFAULT_SEED'' 42 = Inr sd"
  shows "resolve_parameters env pf data =
     (case aspect_lookup (dict_get data ''aspect_ratio'' (PyStr ''16:9'')) of
        Inl e \<Rightarrow> Raise e
      | Inr None \<Rightarrow> Return invalid_aspect
      | Inr (Some (wd, ht)) \<Rightarrow>
          Continue
            \<lparr>prompt = dict_get data ''prompt'' PyNone,
             s3_bucket = dict_get data ''s3_bucket'' (getenv env ''S3_BUCKET''),
             aws_access_key_id = dict_get data ''aws_access_key_id'' (getenv env ''AWS_ACCESS_KEY_ID''),
             aws_secret_access_key =
               dict_get data ''aws_secret_access_key'' (getenv env ''AWS_SECRET_ACCESS_KEY''),
             aws_region = dict_get data ''aws_region'' (getenv_default env ''AWS_REGION'' ''us-east-1''),
             negative_prompt = dict_get data ''negative_prompt''
                (PyStr ''ugly, deformed, disfigured, poor details, bad anatomy''),
             positive_magic = dict_get data ''positive_magic''
                (PyStr ''Ultra HD, 4K, cinematic composition.''),
             aspect_ratio = dict_get data ''aspect_ratio'' (PyStr ''16:9''),
             num_inference_steps = dict_get data ''num_inference_steps'' (PyInt st),
             true_cfg_scale = dict_get data ''true_cfg_scale'' (PyFloat cfg),
             seed = dict_get data ''seed'' (PyInt sd),
             width = wd, height = ht\<rparr>)"
  using assms by (simp add: resolve_parameters_def Let_def)

lemma resolve_Continue:
  assumes "resolve_parameters env pf data = Continue r"
  shows "\<exists>st cfg sd.
      truthy (dict_get data ''prompt'' PyNone) \<and>
      truthy (dict_get data ''s3_bucket'' (getenv env ''S3_BUCKET'')) \<and>
      truthy (dict_get data ''aws_access_key_id'' (getenv env ''AWS_ACCESS_KEY_ID'')) \<and>
      truthy (dict_get data ''aws_secret_access_key'' (getenv env ''AWS_SECRET_ACCESS_KEY'')) \<and>
      int_getenv env ''NUM_INFERENCE_STEPS'' 50 = Inr st \<and>
      float_getenv env pf ''TRUE_CFG_SCALE'' (Finite 4) = Inr cfg \<and>
      int_getenv env ''DEFAULT_SEED'' 42 = Inr sd \<and>
      aspect_lookup (dict_get data ''aspect_ratio'' (PyStr ''16:9'')) = Inr (Some (width r, height r)) \<and>
      r = \<lparr>prompt = dict_get data ''prompt'' PyNone,
             s3_bucket = dict_get data ''s3_bucket'' (getenv env ''S3_BUCKET''),
             aws_access_key_id = dict_get data ''aws_access_key_id'' (getenv env ''AWS_ACCESS_KEY_ID''),
             aws_secret_access_key =
               dict_get data ''aws_secret_access_key'' (getenv env ''AWS_SECRET_ACCESS_KEY''),
             aws_region = dict_get data ''aws_region'' (getenv_default env ''AWS_REGION'' ''us-east-1''),
             negative_prompt = dict_get data ''negative_prompt''
                (PyStr ''ugly, deformed, disfigured, poor details, bad anatomy''),
             positive_magic = dict_get data ''positive_magic''
                (PyStr ''Ultra HD, 4K, cinematic composition.''),
             aspect_ratio = dict_get data ''aspect_ratio'' (PyStr ''16:9''),
             num_inference_steps = dict_get data ''num_inference_steps'' (PyInt st),
             true_cfg_scale = dict_get data ''true_cfg_scale'' (PyFloat cfg),
             seed = dict_get data ''seed'' (PyInt sd),
             width = width r, height = height r\<rparr>"
  using assms
  by (auto simp add: resolve_parameters_def Let_def split: if_splits sum.splits option.splits)


section \<open>Properties of the invocation and the upload\<close>

lemma str_add_Inr:
  "str_add a b = Inr c \<Longrightarrow> \<exists>x y. a = PyStr x \<and> b = PyStr y \<and> c = PyStr (x @ y)"
  by (cases "(a, b)" rule: str_add.cases) auto

lemma invoke_gateway_called:
  assumes "prompt r = PyStr p" and "positive_magic r = PyStr m"
    and "manual_seed w (torch_device w) (seed r) = None"
  shows "gateway_calls (invoke_and_persist w data r) =
     [\<lparr>arg_prompt = PyStr (p @ '' '' @ m), arg_negative_prompt = negative_prompt r,
       arg_width = width r, arg_height = height r,
       arg_num_inference_steps = num_inference_steps r,
       arg_true_cfg_scale = true_cfg_scale r,
       arg_generator = \<lparr>gen_device = torch_device w, gen_seed = seed r\<rparr>\<rparr>]"
  using assms
  by (simp add: invoke_and_persist_def Let_def failed_def split: sum.splits option.splits)

lemma invoke_gateway_calls:
  "gateway_calls (invoke_and_persist w data r) = [] \<or>
   (\<exists>p m. prompt r = PyStr p \<and> positive_magic r = PyStr m \<and>
      manual_seed w (torch_device w) (seed r) = None)"
  by (auto simp add: invoke_and_persist_def Let_def failed_def
      split: sum.splits option.splits dest!: str_add_Inr)




section \<open>Properties of the handler\<close>

lemma generate_image_dict:
  "generate_image w (Inr (PyDict items)) =
     (case resolve_parameters (environ w) (py_float w) (map_of items) of
        Return resp \<Rightarrow> \<lparr>response = resp, gateway_calls = [], sink_calls = []\<rparr>
      | Raise e \<Rightarrow> failed e [] []
      | Continue r \<Rightarrow> invoke_and_persist w (map_of items) r)"
  by (simp add: generate_image_def)

lemma aspect_lookup_Some:
  "aspect_lookup a = Inr (Some wh) \<longleftrightarrow> (\<exists>k. a = PyStr k \<and> map_of aspect_ratios k = Some wh)"
  by (cases a) auto

lemma aspect_table:
  "(k, wd, ht) \<in> {(''1:1'', 1328, 1328), (''16:9'', 1024, 768), (''9:16'', 928, 1664),
      (''4:3'', 1472, 1140), (''3:4'', 1140, 1472), (''3:2'', 1584, 1056), (''2:3'', 1056, 1584)}
   \<longleftrightarrow> map_of aspect_ratios k = Some (wd, ht)"
  by (auto simp add: aspect_ratios_def split: if_splits)

lemma invalid_aspect_literal:
  "invalid_aspect =
     (ErrorBody (Literal
        ''Invalid aspect ratio. Choose from: ['1:1', '16:9', '9:16', '4:3', '3:4', '3:2', '2:3']''),
      400)"
  by (simp add: invalid_aspect_def invalid_aspect_message_def repr_keys_def aspect_ratios_def)

lemma responses_distinct:
  "missing_prompt \<noteq> invalid_aspect" "missing_s3 \<noteq> invalid_aspect" "missing_prompt \<noteq> missing_s3"
  by (simp_all add: invalid_aspect_literal missing_prompt_def missing_s3_def)

lemma invoke_response:
  "(\<exists>e. response (invoke_and_persist w data r) = (ErrorBody (Str e), 500)) \<or>
   (\<exists>s. response (invoke_and_persist w data r) = (SuccessBody s, 200))"
  by (auto simp add: invoke_and_persist_def Let_def failed_def split: sum.splits option.splits)

lemma gateway_called_resolved:
  assumes "gateway_calls (generate_image w (Inr (PyDict items))) \<noteq> []"
  shows "\<exists>r. resolve_parameters (environ w) (py_float w) (map_of items) = Continue r \<and>
     generate_image w (Inr (PyDict items)) = invoke_and_persist w (map_of items) r"
  using assms
  by (cases "resolve_parameters (environ w) (py_float w) (map_of items)")
     (simp_all add: generate_image_dict failed_def)

lemma invalid_aspect_response:
  assumes "response (generate_image w (Inr (PyDict items))) = invalid_aspect"
  shows "resolve_parameters (environ w) (py_float w) (map_of items) = Return invalid_aspect"
proof (cases "resolve_parameters (environ w) (py_float w) (map_of items)")
  case (Return resp)
  with assms show ?thesis by (simp add: generate_image_dict)
next
  case (Raise e)
  with assms show ?thesis by (simp add: generate_image_dict failed_def invalid_aspect_def)
next
  case (Continue r)
  with assms invoke_response [of w "map_of items" r] show ?thesis
    by (auto simp add: generate_image_dict invalid_aspect_def)
qed

lemma resolve_Return_invalid_aspect:
  assumes "resolve_parameters env pf data = Return invalid_aspect"
  shows "truthy (dict_get data ''prompt'' PyNone) \<and>
      truthy (dict_get data ''s3_bucket'' (getenv env ''S3_BUCKET'')) \<and>
      truthy (dict_get data ''aws_access_key_id'' (getenv env ''AWS_ACCESS_KEY_ID'')) \<and>
      truthy (dict_get data ''aws_secret_access_key'' (getenv env ''AWS_SECRET_ACCESS_KEY'')) \<and>
      aspect_lookup (dict_get data ''aspect_ratio'' (PyStr ''16:9'')) = Inr None"
  using assms responses_distinct
  by (auto simp add: resolve_parameters_def Let_def split: if_splits sum.splits option.splits)


lemma storage_env_simps:
  "storage_env ''S3_BUCKET'' = Some ''images''"
  "storage_env ''AWS_ACCESS_KEY_ID'' = Some ''AKIDEXAMPLE''"
  "storage_env ''AWS_SECRET_ACCESS_KEY'' = Some ''s3cr3t''"
  "storage_env ''AWS_REGION'' = None"
  "storage_env ''NUM_INFERENCE_STEPS'' = None"
  "storage_env ''TRUE_CFG_SCALE'' = None"
  "storage_env ''DEFAULT_SEED'' = None"
  by (simp_all add: storage_env_def)


lemma py_int_examples:
  "py_int ''30'' = Some 30" "py_int ''abc'' = None"
  by code_simp+

lemma tuned_env_simps:
  "tuned_env ''S3_BUCKET'' = Some ''images''"
  "tuned_env ''AWS_ACCESS_KEY_ID'' = Some ''AKIDEXAMPLE''"
  "tuned_env ''AWS_SECRET_ACCESS_KEY'' = Some ''s3cr3t''"
  "tuned_env ''AWS_REGION'' = Some ''eu-west-1''"
  "tuned_env ''NUM_INFERENCE_STEPS'' = Some ''30''"
  "tuned_env ''TRUE_CFG_SCALE'' = Some ''7.5''"
  "tuned_env ''DEFAULT_SEED'' = None"
  by (simp_all add: tuned_env_def)

lemma int_getenv_Inr:
  "int_getenv env name d = Inr n \<Longrightarrow>
   PyInt n = layered None (map_option PyInt (Option.bind (env name) py_int)) (PyInt d) \<and>
   (\<forall>s. env name = Some s \<longrightarrow> py_int s = Some n)"
  by (auto simp add: int_getenv_def layered_def split: option.splits)

lemma float_getenv_Inr:
  "float_getenv env pf name d = Inr x \<Longrightarrow>
   PyFloat x = layered None (map_option PyFloat (Option.bind (env name) pf)) (PyFloat d) \<and>
   (\<forall>s. env name = Some s \<longrightarrow> pf s = Some x)"
  by (auto simp add: float_getenv_def layered_def split: option.splits)

lemma dict_get_layered:
  "dflt = layered None e h \<Longrightarrow> dict_get d k dflt = layered (d k) e h"
  by (simp add: dict_get_def layered_def split: option.splits)


lemma generate_image_gateway_call:
  assumes res: "resolve_parameters (environ w) (py_float w) (map_of items) = Continue r"
    and p: "prompt r = PyStr p" and m: "positive_magic r = PyStr m"
    and g: "manual_seed w (torch_device w) (seed r) = None"
  shows "gateway_calls (generate_image w (Inr (PyDict items))) =
     [\<lparr>arg_prompt = PyStr (p @ '' '' @ m), arg_negative_prompt = negative_prompt r,
       arg_width = width r, arg_height = height r,
       arg_num_inference_steps = num_inference_steps r,
       arg_true_cfg_scale = true_cfg_scale r,
       arg_generator = \<lparr>gen_device = torch_device w, gen_seed = seed r\<rparr>\<rparr>]"
  using invoke_gateway_called [OF p m g, of "map_of items"] res
  by (simp add: generate_image_dict)

lemma resolve_Continue_prompt:
  assumes "resolve_parameters env pf data = Continue r"
  shows "prompt r = dict_get data ''prompt'' PyNone"
    and "positive_magic r = dict_get data ''positive_magic'' (PyStr ''Ultra HD, 4K, cinematic composition.'')"
proof -
  from resolve_Continue [OF assms] obtain st cfg sd where
    r: "r = \<lparr>prompt = dict_get data ''prompt'' PyNone,
             s3_bucket = dict_get data ''s3_bucket'' (getenv env ''S3_BUCKET''),
             aws_access_key_id = dict_get data ''aws_access_key_id'' (getenv env ''AWS_ACCESS_KEY_ID''),
             aws_secret_access_key =
               dict_get data ''aws_secret_access_key'' (getenv env ''AWS_SECRET_ACCESS_KEY''),
             aws_region = dict_get data ''aws_region'' (getenv_default env ''AWS_REGION'' ''us-east-1''),
             negative_prompt = dict_get data ''negative_prompt''
                (PyStr ''ugly, deformed, disfigured, poor details, bad anatomy''),
             positive_magic = dict_get data ''positive_magic''
                (PyStr ''Ultra HD, 4K, cinematic composition.''),
             aspect_ratio = dict_get data ''aspect_ratio'' (PyStr ''16:9''),
             num_inference_steps = dict_get data ''num_inference_steps'' (PyInt st),
             true_cfg_scale = dict_get data ''true_cfg_scale'' (PyFloat cfg),
             seed = dict_get data ''seed'' (PyInt sd),
             width = width r, height = height r\<rparr>"
    by blast
  show "prompt r = dict_get data ''prompt'' PyNone"
    by (subst r) simp
  show "positive_magic r = dict_get data ''positive_magic'' (PyStr ''Ultra HD, 4K, cinematic composition.'')"
    by (subst r) simp
qed


lemma resolve_example:
  assumes "map_of items ''prompt'' = Some (PyStr p)" and "p \<noteq> []"
    and "map_of items ''s3_bucket'' = None" and "map_of items ''aws_access_key_id'' = None"
    and "map_of items ''aws_secret_access_key'' = None" and "map_of items ''aspect_ratio'' = None"
  shows "resolve_parameters (environ (example_world storage_env)) (py_float (example_world storage_env))
       (map_of items) =
     Continue
       \<lparr>prompt = PyStr p, s3_bucket = PyStr ''images'',
        aws_access_key_id = PyStr ''AKIDEXAMPLE'', aws_secret_access_key = PyStr ''s3cr3t'',
        aws_region = dict_get (map_of items) ''aws_region'' (PyStr ''us-east-1''),
        negative_prompt = dict_get (map_of items) ''negative_prompt''
           (PyStr ''ugly, deformed, disfigured, poor details, bad anatomy''),
        positive_magic = dict_get (map_of items) ''positive_magic''
           (PyStr ''Ultra HD, 4K, cinematic composition.''),
        aspect_ratio = PyStr ''16:9'',
        num_inference_steps = dict_get (map_of items) ''num_inference_steps'' (PyInt 50),
        true_cfg_scale = dict_get (map_of items) ''true_cfg_scale'' (PyFloat (Finite 4)),
        seed = dict_get (map_of items) ''seed'' (PyInt 42),
        width = 1024, height = 768\<rparr>"
  using assms
  by (simp add: resolve_parameters_def Let_def dict_get_def getenv_def getenv_default_def
      int_getenv_def float_getenv_def example_world_def storage_env_simps aspect_ratios_def)






















section \<open>The claims\<close>

text \<open>
  Claim C1, as the code has it. For a request with a prompt and a resolved storage
  configuration, in an environment whose numeric defaults are unset or parse:
  a supported aspect-ratio label resolves to exactly the pair of the fixed table; a
  hashable value that is no key of the table is answered with status 400 and the message
  naming the seven allowed labels, and no collaborator is called. And for every request
  whose aspect ratio is no key of the table, whatever else holds, the pipeline is never
  called.
\<close>

theorem aspect_ratio_resolution:
  "(truthy (dict_get (map_of items) ''prompt'' PyNone) \<and>
    truthy (dict_get (map_of items) ''s3_bucket'' (getenv (environ w) ''S3_BUCKET'')) \<and>
    truthy (dict_get (map_of items) ''aws_access_key_id'' (getenv (environ w) ''AWS_ACCESS_KEY_ID'')) \<and>
    truthy (dict_get (map_of items) ''aws_secret_access_key''
       (getenv (environ w) ''AWS_SECRET_ACCESS_KEY'')) \<and>
    int_getenv (environ w) ''NUM_INFERENCE_STEPS'' 50 = Inr st \<and>
    float_getenv (environ w) (py_float w) ''TRUE_CFG_SCALE'' (Finite 4) = Inr cfg \<and>
    int_getenv (environ w) ''DEFAULT_SEED'' 42 = Inr sd
    \<longrightarrow>
      (\<forall>k wd ht.
         dict_get (map_of items) ''aspect_ratio'' (PyStr ''16:9'') = PyStr k \<and>
         (k, wd, ht) \<in> {(''1:1'', 1328, 1328), (''16:9'', 1024, 768), (''9:16'', 928, 1664),
            (''4:3'', 1472, 1140), (''3:4'', 1140, 1472), (''3:2'', 1584, 1056),
            (''2:3'', 1056, 1584)}
         \<longrightarrow> (\<exists>r. resolve_parameters (environ w) (py_float w) (map_of items) = Continue r \<and>
                width r = wd \<and> height r = ht)) \<and>
      (aspect_lookup (dict_get (map_of items) ''aspect_ratio'' (PyStr ''16:9'')) = Inr None
         \<longrightarrow> generate_image w (Inr (PyDict items)) =
             \<lparr>response =
                (ErrorBody (Literal
                   ''Invalid aspect ratio. Choose from: ['1:1', '16:9', '9:16', '4:3', '3:4', '3:2', '2:3']''),
                 400),
              gateway_calls = [], sink_calls = []\<rparr>)) \<and>
   ((\<forall>wh. aspect_lookup (dict_get (map_of items) ''aspect_ratio'' (PyStr ''16:9'')) \<noteq> Inr (Some wh))
      \<longrightarrow> gateway_calls (generate_image w (Inr (PyDict items))) = [])"
proof (intro conjI impI allI)
  fix k :: string and wd ht :: nat
  assume ok: "truthy (dict_get (map_of items) ''prompt'' PyNone) \<and>
    truthy (dict_get (map_of items) ''s3_bucket'' (getenv (environ w) ''S3_BUCKET'')) \<and>
    truthy (dict_get (map_of items) ''aws_access_key_id'' (getenv (environ w) ''AWS_ACCESS_KEY_ID'')) \<and>
    truthy (dict_get (map_of items) ''aws_secret_access_key''
       (getenv (environ w) ''AWS_SECRET_ACCESS_KEY'')) \<and>
    int_getenv (environ w) ''NUM_INFERENCE_STEPS'' 50 = Inr st \<and>
    float_getenv (environ w) (py_float w) ''TRUE_CFG_SCALE'' (Finite 4) = Inr cfg \<and>
    int_getenv (environ w) ''DEFAULT_SEED'' 42 = Inr sd"
  assume key: "dict_get (map_of items) ''aspect_ratio'' (PyStr ''16:9'') = PyStr k \<and>
         (k, wd, ht) \<in> {(''1:1'', 1328, 1328), (''16:9'', 1024, 768), (''9:16'', 928, 1664),
            (''4:3'', 1472, 1140), (''3:4'', 1140, 1472), (''3:2'', 1584, 1056),
            (''2:3'', 1056, 1584)}"
  have "map_of aspect_ratios k = Some (wd, ht)"
    by (rule aspect_table [THEN iffD1, OF conjunct2 [OF key]])
  with key have "aspect_lookup (dict_get (map_of items) ''aspect_ratio'' (PyStr ''16:9'')) =
      Inr (Some (wd, ht))"
    by simp
  with ok show "\<exists>r. resolve_parameters (environ w) (py_float w) (map_of items) = Continue r \<and>
                width r = wd \<and> height r = ht"
    by (simp add: resolve_checks_passed [of "map_of items" "environ w" st "py_float w" cfg sd])
next
  assume ok: "truthy (dict_get (map_of items) ''prompt'' PyNone) \<and>
    truthy (dict_get (map_of items) ''s3_bucket'' (getenv (environ w) ''S3_BUCKET'')) \<and>
    truthy (dict_get (map_of items) ''aws_access_key_id'' (getenv (environ w) ''AWS_ACCESS_KEY_ID'')) \<and>
    truthy (dict_get (map_of items) ''aws_secret_access_key''
       (getenv (environ w) ''AWS_SECRET_ACCESS_KEY'')) \<and>
    int_getenv (environ w) ''NUM_INFERENCE_STEPS'' 50 = Inr st \<and>
    float_getenv (environ w) (py_float w) ''TRUE_CFG_SCALE'' (Finite 4) = Inr cfg \<and>
    int_getenv (environ w) ''DEFAULT_SEED'' 42 = Inr sd"
  assume "aspect_lookup (dict_get (map_of items) ''aspect_ratio'' (PyStr ''16:9'')) = Inr None"
  with ok have "resolve_parameters (environ w) (py_float w) (map_of items) = Return invalid_aspect"
    by (simp add: resolve_checks_passed [of "map_of items" "environ w" st "py_float w" cfg sd])
  then show "generate_image w (Inr (PyDict items)) =
             \<lparr>response =
                (ErrorBody (Literal
                   ''Invalid aspect ratio. Choose from: ['1:1', '16:9', '9:16', '4:3', '3:4', '3:2', '2:3']''),
                 400),
              gateway_calls = [], sink_calls = []\<rparr>"
    by (simp add: generate_image_dict invalid_aspect_literal)
next
  assume none: "\<forall>wh. aspect_lookup (dict_get (map_of items) ''aspect_ratio'' (PyStr ''16:9'')) \<noteq>
      Inr (Some wh)"
  show "gateway_calls (generate_image w (Inr (PyDict items))) = []"
  proof (rule ccontr)
    assume "gateway_calls (generate_image w (Inr (PyDict items))) \<noteq> []"
    then obtain r where "resolve_parameters (environ w) (py_float w) (map_of items) = Continue r"
      using gateway_called_resolved by blast
    from resolve_Continue [OF this] none show False by blast
  qed
qed

text \<open>
  The theorem at a request for \<^verbatim>\<open>9:16\<close>, at one for the unsupported \<^verbatim>\<open>5:4\<close>, and at one
  whose aspect ratio is a list.
\<close>

theorem aspect_ratio_resolution_witness:
  "(\<exists>r. resolve_parameters (environ (example_world storage_env)) (py_float (example_world storage_env))
         (map_of [(''prompt'', PyStr ''a red bicycle''), (''aspect_ratio'', PyStr ''9:16'')]) = Continue r \<and>
       width r = 928 \<and> height r = 1664) \<and>
   aspect_lookup (dict_get (map_of [(''prompt'', PyStr ''x''), (''aspect_ratio'', PyStr ''5:4'')])
      ''aspect_ratio'' (PyStr ''16:9'')) = Inr None \<and>
   generate_image (example_world storage_env)
      (Inr (PyDict [(''prompt'', PyStr ''x''), (''aspect_ratio'', PyStr ''5:4'')])) =
     \<lparr>response =
        (ErrorBody (Literal
           ''Invalid aspect ratio. Choose from: ['1:1', '16:9', '9:16', '4:3', '3:4', '3:2', '2:3']''),
         400),
      gateway_calls = [], sink_calls = []\<rparr> \<and>
   gateway_calls (generate_image (example_world storage_env)
      (Inr (PyDict [(''prompt'', PyStr ''x''), (''aspect_ratio'', PyList [])]))) = []"
  using
    aspect_ratio_resolution
      [of "[(''prompt'', PyStr ''a red bicycle''), (''aspect_ratio'', PyStr ''9:16'')]"
          "example_world storage_env" 50 "Finite 4" 42]
    aspect_ratio_resolution
      [of "[(''prompt'', PyStr ''x''), (''aspect_ratio'', PyStr ''5:4'')]"
          "example_world storage_env" 50 "Finite 4" 42]
    aspect_ratio_resolution
      [of "[(''prompt'', PyStr ''x''), (''aspect_ratio'', PyList [])]"
          "example_world storage_env" 50 "Finite 4" 42]
  by (simp add: dict_get_def getenv_def int_getenv_def float_getenv_def example_world_def
      storage_env_simps aspect_ratios_def)

text \<open>
  The claim as the specification words it fails where the storage configuration does not
  resolve: with only \<^verbatim>\<open>S3_BUCKET\<close> set, the request \<^verbatim>\<open>{prompt: x, aspect_ratio: 5:4}\<close> is
  answered with the S3 message, not with the one about the aspect ratio.
\<close>

theorem aspect_ratio_resolution_counterexample:
  "map_of aspect_ratios ''5:4'' = None \<and>
   generate_image (example_world [''S3_BUCKET'' \<mapsto> ''images''])
      (Inr (PyDict [(''prompt'', PyStr ''x''), (''aspect_ratio'', PyStr ''5:4'')])) =
     \<lparr>response =
        (ErrorBody (Literal
           ''S3 configuration missing. Provide in request or set in environment variables''), 400),
      gateway_calls = [], sink_calls = []\<rparr> \<and>
   response (generate_image (example_world [''S3_BUCKET'' \<mapsto> ''images''])
      (Inr (PyDict [(''prompt'', PyStr ''x''), (''aspect_ratio'', PyStr ''5:4'')]))) \<noteq> invalid_aspect"
  by (simp add: generate_image_def resolve_parameters_def Let_def dict_get_def getenv_def
      example_world_def missing_s3_def aspect_ratios_def invalid_aspect_literal)

text \<open>
  Claim C2, as the code has it. The checks run in the order prompt, storage configuration,
  aspect ratio (lines 79, 89 and 111): a request without a prompt gets the prompt
  message; a request with a prompt whose bucket or credentials do not resolve gets the S3
  message, whatever its aspect ratio; and the message about the aspect ratio is only
  ever the answer to a request whose prompt and storage configuration passed.
\<close>

theorem validation_order:
  "(\<not> truthy (dict_get (map_of items) ''prompt'' PyNone)
      \<longrightarrow> generate_image w (Inr (PyDict items)) =
           \<lparr>response = (ErrorBody (Literal ''Missing required field: prompt''), 400),
            gateway_calls = [], sink_calls = []\<rparr>) \<and>
   (truthy (dict_get (map_of items) ''prompt'' PyNone) \<and>
    \<not> (truthy (dict_get (map_of items) ''s3_bucket'' (getenv (environ w) ''S3_BUCKET'')) \<and>
       truthy (dict_get (map_of items) ''aws_access_key_id'' (getenv (environ w) ''AWS_ACCESS_KEY_ID'')) \<and>
       truthy (dict_get (map_of items) ''aws_secret_access_key''
          (getenv (environ w) ''AWS_SECRET_ACCESS_KEY'')))
      \<longrightarrow> generate_image w (Inr (PyDict items)) =
           \<lparr>response =
              (ErrorBody (Literal
                 ''S3 configuration missing. Provide in request or set in environment variables''),
               400),
            gateway_calls = [], sink_calls = []\<rparr>) \<and>
   (response (generate_image w (Inr (PyDict items))) = invalid_aspect
      \<longrightarrow> truthy (dict_get (map_of items) ''prompt'' PyNone) \<and>
          truthy (dict_get (map_of items) ''s3_bucket'' (getenv (environ w) ''S3_BUCKET'')) \<and>
          truthy (dict_get (map_of items) ''aws_access_key_id''
             (getenv (environ w) ''AWS_ACCESS_KEY_ID'')) \<and>
          truthy (dict_get (map_of items) ''aws_secret_access_key''
             (getenv (environ w) ''AWS_SECRET_ACCESS_KEY'')))"
proof (intro conjI impI)
  assume "\<not> truthy (dict_get (map_of items) ''prompt'' PyNone)"
  from resolve_no_prompt [OF this]
  show "generate_image w (Inr (PyDict items)) =
           \<lparr>response = (ErrorBody (Literal ''Missing required field: prompt''), 400),
            gateway_calls = [], sink_calls = []\<rparr>"
    by (simp add: generate_image_dict missing_prompt_def)
next
  assume a: "truthy (dict_get (map_of items) ''prompt'' PyNone) \<and>
    \<not> (truthy (dict_get (map_of items) ''s3_bucket'' (getenv (environ w) ''S3_BUCKET'')) \<and>
       truthy (dict_get (map_of items) ''aws_access_key_id'' (getenv (environ w) ''AWS_ACCESS_KEY_ID'')) \<and>
       truthy (dict_get (map_of items) ''aws_secret_access_key''
          (getenv (environ w) ''AWS_SECRET_ACCESS_KEY'')))"
  from resolve_no_storage [OF conjunct1 [OF a] conjunct2 [OF a]]
  show "generate_image w (Inr (PyDict items)) =
           \<lparr>response =
              (ErrorBody (Literal
                 ''S3 configuration missing. Provide in request or set in environment variables''),
               400),
            gateway_calls = [], sink_calls = []\<rparr>"
    by (simp add: generate_image_dict missing_s3_def)
next
  assume "response (generate_image w (Inr (PyDict items))) = invalid_aspect"
  from resolve_Return_invalid_aspect [OF invalid_aspect_response [OF this]]
  show "truthy (dict_get (map_of items) ''prompt'' PyNone)"
    and "truthy (dict_get (map_of items) ''s3_bucket'' (getenv (environ w) ''S3_BUCKET''))"
    and "truthy (dict_get (map_of items) ''aws_access_key_id''
             (getenv (environ w) ''AWS_ACCESS_KEY_ID''))"
    and "truthy (dict_get (map_of items) ''aws_secret_access_key''
             (getenv (environ w) ''AWS_SECRET_ACCESS_KEY''))"
    by simp_all
qed

text \<open>
  The theorem at a request without prompt, at one without bucket, and at one that
  reaches the aspect-ratio check.
\<close>

theorem validation_order_witness:
  "generate_image (example_world Map.empty)
      (Inr (PyDict [(''aspect_ratio'', PyStr ''5:4'')])) =
     \<lparr>response = (ErrorBody (Literal ''Missing required field: prompt''), 400),
      gateway_calls = [], sink_calls = []\<rparr> \<and>
   generate_image (example_world [''AWS_ACCESS_KEY_ID'' \<mapsto> ''AKIDEXAMPLE''])
      (Inr (PyDict [(''prompt'', PyStr ''x''), (''aspect_ratio'', PyStr ''5:4'')])) =
     \<lparr>response =
        (ErrorBody (Literal
           ''S3 configuration missing. Provide in request or set in environment variables''), 400),
      gateway_calls = [], sink_calls = []\<rparr> \<and>
   response (generate_image (example_world storage_env)
      (Inr (PyDict [(''prompt'', PyStr ''x''), (''aspect_ratio'', PyStr ''5:4'')]))) = invalid_aspect \<and>
   truthy (dict_get (map_of [(''prompt'', PyStr ''x''), (''aspect_ratio'', PyStr ''5:4'')]) ''s3_bucket''
      (getenv (environ (example_world storage_env)) ''S3_BUCKET''))"
proof -
  have r: "response (generate_image (example_world storage_env)
      (Inr (PyDict [(''prompt'', PyStr ''x''), (''aspect_ratio'', PyStr ''5:4'')]))) = invalid_aspect"
    by (simp add: generate_image_def resolve_parameters_def Let_def dict_get_def getenv_def
        int_getenv_def float_getenv_def example_world_def storage_env_simps aspect_ratios_def)
  show ?thesis
    using r
      validation_order [of "[(''aspect_ratio'', PyStr ''5:4'')]" "example_world Map.empty"]
      validation_order [of "[(''prompt'', PyStr ''x''), (''aspect_ratio'', PyStr ''5:4'')]"
        "example_world [''AWS_ACCESS_KEY_ID'' \<mapsto> ''AKIDEXAMPLE'']"]
      validation_order [of "[(''prompt'', PyStr ''x''), (''aspect_ratio'', PyStr ''5:4'')]"
        "example_world storage_env"]
    by (simp add: dict_get_def getenv_def example_world_def)
qed

text \<open>
  The order the specification gives (aspect ratio before storage) fails on the code: with
  nothing configured, a request with a prompt and the unsupported ratio \<^verbatim>\<open>5:4\<close> is
  answered with the S3 message.
\<close>

theorem validation_order_counterexample:
  "truthy (PyStr ''a cat'') \<and>
   map_of aspect_ratios ''5:4'' = None \<and>
   generate_image (example_world Map.empty)
      (Inr (PyDict [(''prompt'', PyStr ''a cat''), (''aspect_ratio'', PyStr ''5:4'')])) =
     \<lparr>response =
        (ErrorBody (Literal
           ''S3 configuration missing. Provide in request or set in environment variables''), 400),
      gateway_calls = [], sink_calls = []\<rparr> \<and>
   response (generate_image (example_world Map.empty)
      (Inr (PyDict [(''prompt'', PyStr ''a cat''), (''aspect_ratio'', PyStr ''5:4'')]))) \<noteq> invalid_aspect"
  by (simp add: generate_image_def resolve_parameters_def Let_def dict_get_def getenv_def
      example_world_def missing_s3_def aspect_ratios_def invalid_aspect_literal)

text \<open>
  Claim C3, as the code has it. For every request that passes validation and resolves:
  the negative prompt and the positive magic are the request's value when the key is
  present and the hardcoded literal otherwise, the environment having no part in them;
  the step count, the guidance scale, the seed and the region follow the precedence
  request, then environment (\<^verbatim>\<open>NUM_INFERENCE_STEPS\<close>, \<^verbatim>\<open>TRUE_CFG_SCALE\<close>, \<^verbatim>\<open>DEFAULT_SEED\<close>,
  \<^verbatim>\<open>AWS_REGION\<close>), then hardcoded default (50, 4.0, 42, \<^verbatim>\<open>us-east-1\<close>).
\<close>

theorem default_precedence:
  assumes "resolve_parameters env pf data = Continue r"
  shows "negative_prompt r =
       layered (data ''negative_prompt'') None
         (PyStr ''ugly, deformed, disfigured, poor details, bad anatomy'') \<and>
     positive_magic r =
       layered (data ''positive_magic'') None (PyStr ''Ultra HD, 4K, cinematic composition.'') \<and>
     num_inference_steps r =
       layered (data ''num_inference_steps'')
         (map_option PyInt (Option.bind (env ''NUM_INFERENCE_STEPS'') py_int)) (PyInt 50) \<and>
     true_cfg_scale r =
       layered (data ''true_cfg_scale'')
         (map_option PyFloat (Option.bind (env ''TRUE_CFG_SCALE'') pf)) (PyFloat (Finite 4)) \<and>
     seed r =
       layered (data ''seed'') (map_option PyInt (Option.bind (env ''DEFAULT_SEED'') py_int)) (PyInt 42) \<and>
     aws_region r =
       layered (data ''aws_region'') (map_option PyStr (env ''AWS_REGION'')) (PyStr ''us-east-1'')"
proof -
  from resolve_Continue [OF assms] obtain st cfg sd where
    st: "int_getenv env ''NUM_INFERENCE_STEPS'' 50 = Inr st" and
    cfg: "float_getenv env pf ''TRUE_CFG_SCALE'' (Finite 4) = Inr cfg" and
    sd: "int_getenv env ''DEFAULT_SEED'' 42 = Inr sd" and
    r: "r = \<lparr>prompt = dict_get data ''prompt'' PyNone,
             s3_bucket = dict_get data ''s3_bucket'' (getenv env ''S3_BUCKET''),
             aws_access_key_id = dict_get data ''aws_access_key_id'' (getenv env ''AWS_ACCESS_KEY_ID''),
             aws_secret_access_key =
               dict_get data ''aws_secret_access_key'' (getenv env ''AWS_SECRET_ACCESS_KEY''),
             aws_region = dict_get data ''aws_region'' (getenv_default env ''AWS_REGION'' ''us-east-1''),
             negative_prompt = dict_get data ''negative_prompt''
                (PyStr ''ugly, deformed, disfigured, poor details, bad anatomy''),
             positive_magic = dict_get data ''positive_magic''
                (PyStr ''Ultra HD, 4K, cinematic composition.''),
             aspect_ratio = dict_get data ''aspect_ratio'' (PyStr ''16:9''),
             num_inference_steps = dict_get data ''num_inference_steps'' (PyInt st),
             true_cfg_scale = dict_get data ''true_cfg_scale'' (PyFloat cfg),
             seed = dict_get data ''seed'' (PyInt sd),
             width = width r, height = height r\<rparr>"
    by blast
  have neg: "negative_prompt r = layered (data ''negative_prompt'') None
         (PyStr ''ugly, deformed, disfigured, poor details, bad anatomy'')"
    by (subst r) (simp add: dict_get_def layered_def split: option.splits)
  have magic: "positive_magic r =
       layered (data ''positive_magic'') None (PyStr ''Ultra HD, 4K, cinematic composition.'')"
    by (subst r) (simp add: dict_get_def layered_def split: option.splits)
  have steps: "num_inference_steps r =
       layered (data ''num_inference_steps'')
         (map_option PyInt (Option.bind (env ''NUM_INFERENCE_STEPS'') py_int)) (PyInt 50)"
    by (subst r) (simp add: dict_get_layered [OF conjunct1 [OF int_getenv_Inr [OF st]]])
  have scale: "true_cfg_scale r =
       layered (data ''true_cfg_scale'')
         (map_option PyFloat (Option.bind (env ''TRUE_CFG_SCALE'') pf)) (PyFloat (Finite 4))"
    by (subst r) (simp add: dict_get_layered [OF conjunct1 [OF float_getenv_Inr [OF cfg]]])
  have sd': "seed r =
       layered (data ''seed'') (map_option PyInt (Option.bind (env ''DEFAULT_SEED'') py_int)) (PyInt 42)"
    by (subst r) (simp add: dict_get_layered [OF conjunct1 [OF int_getenv_Inr [OF sd]]])
  have region: "aws_region r =
       layered (data ''aws_region'') (map_option PyStr (env ''AWS_REGION'')) (PyStr ''us-east-1'')"
    by (subst r) (simp add: dict_get_def getenv_default_def layered_def split: option.splits)
  from neg magic steps scale sd' region show ?thesis by blast
qed

text \<open>
  The theorem in an environment that sets the step count, the guidance scale and the
  region, at a request that supplies only the prompt and the seed.
\<close>

theorem default_precedence_witness:
  "\<exists>r. resolve_parameters tuned_env (py_float (example_world tuned_env))
          (map_of [(''prompt'', PyStr ''x''), (''seed'', PyInt 7)]) = Continue r \<and>
       negative_prompt r = PyStr ''ugly, deformed, disfigured, poor details, bad anatomy'' \<and>
       positive_magic r = PyStr ''Ultra HD, 4K, cinematic composition.'' \<and>
       num_inference_steps r = PyInt 30 \<and>
       true_cfg_scale r = PyFloat (Finite (15 / 2)) \<and>
       seed r = PyInt 7 \<and>
       aws_region r = PyStr ''eu-west-1''"
proof -
  have eq: "resolve_parameters tuned_env (py_float (example_world tuned_env))
          (map_of [(''prompt'', PyStr ''x''), (''seed'', PyInt 7)]) =
      Continue
        \<lparr>prompt = PyStr ''x'', s3_bucket = PyStr ''images'',
         aws_access_key_id = PyStr ''AKIDEXAMPLE'', aws_secret_access_key = PyStr ''s3cr3t'',
         aws_region = PyStr ''eu-west-1'',
         negative_prompt = PyStr ''ugly, deformed, disfigured, poor details, bad anatomy'',
         positive_magic = PyStr ''Ultra HD, 4K, cinematic composition.'',
         aspect_ratio = PyStr ''16:9'', num_inference_steps = PyInt 30,
         true_cfg_scale = PyFloat (Finite (15 / 2)), seed = PyInt 7,
         width = 1024, height = 768\<rparr>"
    by (simp add: resolve_parameters_def Let_def dict_get_def getenv_def getenv_default_def
        int_getenv_def float_getenv_def example_world_def tuned_env_simps py_int_examples
        aspect_ratios_def)
  from eq default_precedence [OF eq] show ?thesis
    by simp
qed

text \<open>
  The three-layer precedence the specification gives for every optional field fails on
  the code in two ways. No environment variable reaches the negative prompt or the
  positive magic: with \<^verbatim>\<open>NEGATIVE_PROMPT\<close> and \<^verbatim>\<open>POSITIVE_MAGIC\<close> set, a request that omits both
  still gets the hardcoded literals. And the numeric environment defaults are parsed
  before the request is consulted: with \<^verbatim>\<open>DEFAULT_SEED=abc\<close>, a request that supplies its
  own seed is answered with status 500.
\<close>

theorem default_precedence_counterexample:
  "gateway_calls
     (generate_image
        (example_world (storage_env(''NEGATIVE_PROMPT'' \<mapsto> ''blurry'', ''POSITIVE_MAGIC'' \<mapsto> ''8K'')))
        (Inr (PyDict [(''prompt'', PyStr ''x'')]))) =
     [\<lparr>arg_prompt = PyStr ''x Ultra HD, 4K, cinematic composition.'',
       arg_negative_prompt = PyStr ''ugly, deformed, disfigured, poor details, bad anatomy'',
       arg_width = 1024, arg_height = 768, arg_num_inference_steps = PyInt 50,
       arg_true_cfg_scale = PyFloat (Finite 4),
       arg_generator = \<lparr>gen_device = ''cpu'', gen_seed = PyInt 42\<rparr>\<rparr>] \<and>
   generate_image (example_world (storage_env(''DEFAULT_SEED'' \<mapsto> ''abc'')))
     (Inr (PyDict [(''prompt'', PyStr ''x''), (''seed'', PyInt 7)])) =
     \<lparr>response = (ErrorBody (Str ValueError), 500), gateway_calls = [], sink_calls = []\<rparr>"
  by (simp add: generate_image_def resolve_parameters_def invoke_and_persist_def failed_def
      torch_device_def Let_def dict_get_def getenv_def getenv_default_def int_getenv_def
      float_getenv_def example_world_def storage_env_def py_int_examples aspect_ratios_def
      upload_to_s3_def)

text \<open>
  Claim C4. For a validated request whose prompt and positive magic are text, the
  pipeline is called once, and the prompt it receives is the request's prompt, one space,
  and the positive magic: the default \<^verbatim>\<open>Ultra HD, 4K, cinematic composition.\<close> when the
  request has no such key, the caller's text when it has. (The generator must have been
  seeded: torch raising there ends the request before the call.)
\<close>

theorem composed_prompt:
  assumes "resolve_parameters (environ w) (py_float w) (map_of items) = Continue r"
    and "map_of items ''prompt'' = Some (PyStr p)"
    and "dict_get (map_of items) ''positive_magic'' (PyStr ''Ultra HD, 4K, cinematic composition.'') =
           PyStr m"
    and "manual_seed w (torch_device w) (seed r) = None"
  shows "\<exists>a. gateway_calls (generate_image w (Inr (PyDict items))) = [a] \<and>
            arg_prompt a = PyStr (p @ '' '' @ m)"
proof -
  have p: "prompt r = PyStr p"
    using resolve_Continue_prompt(1) [OF assms(1)] assms(2) by (simp add: dict_get_def)
  have m: "positive_magic r = PyStr m"
    using resolve_Continue_prompt(2) [OF assms(1)] assms(3) by simp
  show ?thesis
    by (simp add: generate_image_gateway_call [OF assms(1) p m assms(4)])
qed


text \<open>The theorem at a request with the default magic and at one that overrides it.\<close>

theorem composed_prompt_witness:
  "(\<exists>a. gateway_calls (generate_image (example_world storage_env)
           (Inr (PyDict [(''prompt'', PyStr ''a red bicycle'')]))) = [a] \<and>
        arg_prompt a = PyStr ''a red bicycle Ultra HD, 4K, cinematic composition.'') \<and>
   (\<exists>a. gateway_calls (generate_image (example_world storage_env)
           (Inr (PyDict [(''prompt'', PyStr ''a red bicycle''),
                         (''positive_magic'', PyStr ''oil painting'')]))) = [a] \<and>
        arg_prompt a = PyStr ''a red bicycle oil painting'')"
  using
    composed_prompt
      [where p = "''a red bicycle''" and m = "''Ultra HD, 4K, cinematic composition.''",
       OF resolve_example [of "[(''prompt'', PyStr ''a red bicycle'')]" "''a red bicycle''"]]
    composed_prompt
      [where p = "''a red bicycle''" and m = "''oil painting''",
       OF resolve_example [of "[(''prompt'', PyStr ''a red bicycle''),
                         (''positive_magic'', PyStr ''oil painting'')]" "''a red bicycle''"]]
  by (simp add: dict_get_def example_world_def)


text \<open>
  Claim C5. A request (a JSON object) whose prompt is missing or empty is answered with
  status 400 and the message \<^verbatim>\<open>Missing required field: prompt\<close>, and neither the
  pipeline nor \<^verbatim>\<open>upload_to_s3\<close> is called. The check is Python's \<^verbatim>\<open>not prompt\<close>, so
  "empty" covers the absent key, \<^verbatim>\<open>null\<close>, the empty string and every other falsy value.
\<close>

theorem missing_prompt_rejected:
  assumes "\<not> truthy (dict_get (map_of items) ''prompt'' PyNone)"
  shows "generate_image w (Inr (PyDict items)) =
     \<lparr>response = (ErrorBody (Literal ''Missing required field: prompt''), 400),
      gateway_calls = [], sink_calls = []\<rparr>"
  using resolve_no_prompt [OF assms]
  by (simp add: generate_image_dict missing_prompt_def)

text \<open>The theorem at a request without the key, and at one with the empty string.\<close>

theorem missing_prompt_rejected_witness:
  "\<not> truthy (dict_get (map_of [(''aspect_ratio'', PyStr ''1:1'')]) ''prompt'' PyNone) \<and>
   generate_image (example_world storage_env) (Inr (PyDict [(''aspect_ratio'', PyStr ''1:1'')])) =
     \<lparr>response = (ErrorBody (Literal ''Missing required field: prompt''), 400),
      gateway_calls = [], sink_calls = []\<rparr> \<and>
   \<not> truthy (dict_get (map_of [(''prompt'', PyStr '''')]) ''prompt'' PyNone) \<and>
   generate_image (example_world storage_env) (Inr (PyDict [(''prompt'', PyStr '''')])) =
     \<lparr>response = (ErrorBody (Literal ''Missing required field: prompt''), 400),
      gateway_calls = [], sink_calls = []\<rparr>"
  using missing_prompt_rejected [of "[(''aspect_ratio'', PyStr ''1:1'')]" "example_world storage_env"]
    missing_prompt_rejected [of "[(''prompt'', PyStr '''')]" "example_world storage_env"]
  by (simp add: dict_get_def)






text \<open>
  Claim C8. The call of the pipeline is determined by the resolved job. Two validated
  requests (in any two environments, on the same kind of device) that agree on the
  composed prompt, the negative prompt, width, height, step count, guidance scale and seed
  make the same call, argument for argument, and the generator handed over is seeded
  with exactly the job's seed. What the pipeline computes from these arguments is torch's
  business and outside this theory.
\<close>

theorem gateway_deterministic:
  assumes "resolve_parameters (environ w1) (py_float w1) (map_of items1) = Continue r1"
    and "resolve_parameters (environ w2) (py_float w2) (map_of items2) = Continue r2"
    and "prompt r1 = PyStr p1" and "positive_magic r1 = PyStr m1"
    and "prompt r2 = PyStr p2" and "positive_magic r2 = PyStr m2"
    and "p1 @ '' '' @ m1 = p2 @ '' '' @ m2"
    and "negative_prompt r1 = negative_prompt r2"
    and "width r1 = width r2" and "height r1 = height r2"
    and "num_inference_steps r1 = num_inference_steps r2"
    and "true_cfg_scale r1 = true_cfg_scale r2"
    and "seed r1 = seed r2"
    and "cuda_is_available w1 = cuda_is_available w2"
    and "manual_seed w1 (torch_device w1) (seed r1) = None"
    and "manual_seed w2 (torch_device w2) (seed r2) = None"
  shows "\<exists>a. gateway_calls (generate_image w1 (Inr (PyDict items1))) = [a] \<and>
            gateway_calls (generate_image w2 (Inr (PyDict items2))) = [a] \<and>
            gen_seed (arg_generator a) = seed r1"
proof -
  have d: "torch_device w1 = torch_device w2"
    using assms(14) by (simp add: torch_device_def)
  show ?thesis
    using assms(7-13) d
    by (simp add: generate_image_gateway_call [OF assms(1) assms(3) assms(4) assms(15)]
        generate_image_gateway_call [OF assms(2) assms(5) assms(6) assms(16)])
qed

text \<open>
  The theorem at two different requests that resolve to the same job: they split the same
  composed prompt at different places, and one spells the default seed out.
\<close>

theorem gateway_deterministic_witness:
  "\<exists>a. gateway_calls (generate_image (example_world storage_env)
           (Inr (PyDict [(''prompt'', PyStr ''a red''), (''positive_magic'', PyStr ''bicycle 4K'')]))) = [a] \<and>
       gateway_calls (generate_image (example_world storage_env)
           (Inr (PyDict [(''prompt'', PyStr ''a red bicycle''), (''positive_magic'', PyStr ''4K''),
                         (''seed'', PyInt 42)]))) = [a] \<and>
       arg_prompt a = PyStr ''a red bicycle 4K'' \<and>
       gen_seed (arg_generator a) = PyInt 42"
proof -
  note r1 = resolve_example [of "[(''prompt'', PyStr ''a red''), (''positive_magic'', PyStr ''bicycle 4K'')]"
          "''a red''"]
  note r2 = resolve_example [of "[(''prompt'', PyStr ''a red bicycle''), (''positive_magic'', PyStr ''4K''),
                         (''seed'', PyInt 42)]" "''a red bicycle''"]
  have r1': "resolve_parameters (environ (example_world storage_env)) (py_float (example_world storage_env))
       (map_of [(''prompt'', PyStr ''a red''), (''positive_magic'', PyStr ''bicycle 4K'')]) =
     Continue
       \<lparr>prompt = PyStr ''a red'', s3_bucket = PyStr ''images'',
        aws_access_key_id = PyStr ''AKIDEXAMPLE'', aws_secret_access_key = PyStr ''s3cr3t'',
        aws_region = PyStr ''us-east-1'',
        negative_prompt = PyStr ''ugly, deformed, disfigured, poor details, bad anatomy'',
        positive_magic = PyStr ''bicycle 4K'',
        aspect_ratio = PyStr ''16:9'',
        num_inference_steps = PyInt 50,
        true_cfg_scale = PyFloat (Finite 4),
        seed = PyInt 42,
        width = 1024, height = 768\<rparr>"
    using r1 by (simp add: dict_get_def)
  have r2': "resolve_parameters (environ (example_world storage_env)) (py_float (example_world storage_env))
       (map_of [(''prompt'', PyStr ''a red bicycle''), (''positive_magic'', PyStr ''4K''),
                         (''seed'', PyInt 42)]) =
     Continue
       \<lparr>prompt = PyStr ''a red bicycle'', s3_bucket = PyStr ''images'',
        aws_access_key_id = PyStr ''AKIDEXAMPLE'', aws_secret_access_key = PyStr ''s3cr3t'',
        aws_region = PyStr ''us-east-1'',
        negative_prompt = PyStr ''ugly, deformed, disfigured, poor details, bad anatomy'',
        positive_magic = PyStr ''4K'',
        aspect_ratio = PyStr ''16:9'',
        num_inference_steps = PyInt 50,
        true_cfg_scale = PyFloat (Finite 4),
        seed = PyInt 42,
        width = 1024, height = 768\<rparr>"
    using r2 by (simp add: dict_get_def)
  from gateway_deterministic
      [OF r1' r2', where ?p1.0 = "''a red''" and ?m1.0 = "''bicycle 4K''"
         and ?p2.0 = "''a red bicycle''" and ?m2.0 = "''4K''"]
  have "\<exists>a. gateway_calls (generate_image (example_world storage_env)
           (Inr (PyDict [(''prompt'', PyStr ''a red''), (''positive_magic'', PyStr ''bicycle 4K'')]))) = [a] \<and>
       gateway_calls (generate_image (example_world storage_env)
           (Inr (PyDict [(''prompt'', PyStr ''a red bicycle''), (''positive_magic'', PyStr ''4K''),
                         (''seed'', PyInt 42)]))) = [a] \<and>
       gen_seed (arg_generator a) = PyInt 42"
    by (simp add: example_world_def)
  moreover have "gateway_calls (generate_image (example_world storage_env)
           (Inr (PyDict [(''prompt'', PyStr ''a red''), (''positive_magic'', PyStr ''bicycle 4K'')]))) =
       [\<lparr>arg_prompt = PyStr ''a red bicycle 4K'',
         arg_negative_prompt = PyStr ''ugly, deformed, disfigured, poor details, bad anatomy'',
         arg_width = 1024, arg_height = 768, arg_num_inference_steps = PyInt 50,
         arg_true_cfg_scale = PyFloat (Finite 4),
         arg_generator = \<lparr>gen_device = ''cpu'', gen_seed = PyInt 42\<rparr>\<rparr>]"
    using generate_image_gateway_call [OF r1', of "''a red''" "''bicycle 4K''"]
    by (simp add: example_world_def torch_device_def)
  ultimately show ?thesis by auto
qed

text \<open>
  Claim C9. A validated request that supplies the empty string as positive magic gets the
  empty string, not the default: the pipeline receives the prompt followed by one space.
\<close>

theorem empty_positive_magic:
  assumes "resolve_parameters (environ w) (py_float w) (map_of items) = Continue r"
    and "map_of items ''prompt'' = Some (PyStr p)"
    and "map_of items ''positive_magic'' = Some (PyStr '''')"
    and "manual_seed w (torch_device w) (seed r) = None"
  shows "\<exists>a. gateway_calls (generate_image w (Inr (PyDict items))) = [a] \<and>
            arg_prompt a = PyStr (p @ '' '')"
proof -
  have p: "prompt r = PyStr p"
    using resolve_Continue_prompt(1) [OF assms(1)] assms(2) by (simp add: dict_get_def)
  have m: "positive_magic r = PyStr ''''"
    using resolve_Continue_prompt(2) [OF assms(1)] assms(3) by (simp add: dict_get_def)
  show ?thesis
    by (simp add: generate_image_gateway_call [OF assms(1) p m assms(4)])
qed


text \<open>The theorem at a request with an empty positive magic.\<close>

theorem empty_positive_magic_witness:
  "\<exists>a. gateway_calls (generate_image (example_world storage_env)
           (Inr (PyDict [(''prompt'', PyStr ''a red bicycle''), (''positive_magic'', PyStr '''')]))) = [a] \<and>
        arg_prompt a = PyStr ''a red bicycle ''"
  using
    empty_positive_magic
      [where p = "''a red bicycle''",
       OF resolve_example [of "[(''prompt'', PyStr ''a red bicycle''), (''positive_magic'', PyStr '''')]"
          "''a red bicycle''"]]
  by (simp add: dict_get_def example_world_def)


text \<open>
  Claim C10. When a request with a prompt supplies \<^verbatim>\<open>s3_bucket\<close>, \<^verbatim>\<open>aws_access_key_id\<close> or
  \<^verbatim>\<open>aws_secret_access_key\<close> as the empty string, that value is the one used, whatever the
  environment holds: the request is answered with status 400 and the message about the
  missing S3 configuration, and no collaborator is called. (The prompt check of line 79
  comes first, so the request must have passed it.)
\<close>

theorem empty_storage_field_shadows_environment:
  assumes "truthy (dict_get (map_of items) ''prompt'' PyNone)"
    and "map_of items ''s3_bucket'' = Some (PyStr '''') \<or>
         map_of items ''aws_access_key_id'' = Some (PyStr '''') \<or>
         map_of items ''aws_secret_access_key'' = Some (PyStr '''')"
  shows "generate_image w (Inr (PyDict items)) =
     \<lparr>response =
        (ErrorBody (Literal
           ''S3 configuration missing. Provide in request or set in environment variables''), 400),
      gateway_calls = [], sink_calls = []\<rparr>"
proof -
  have "\<not> (truthy (dict_get (map_of items) ''s3_bucket'' (getenv (environ w) ''S3_BUCKET'')) \<and>
      truthy (dict_get (map_of items) ''aws_access_key_id'' (getenv (environ w) ''AWS_ACCESS_KEY_ID'')) \<and>
      truthy (dict_get (map_of items) ''aws_secret_access_key''
         (getenv (environ w) ''AWS_SECRET_ACCESS_KEY'')))"
    using assms(2) by (auto simp add: dict_get_def)
  from resolve_no_storage [OF assms(1) this]
  show ?thesis by (simp add: generate_image_dict missing_s3_def)
qed

text \<open>The theorem in an environment that sets \<^verbatim>\<open>S3_BUCKET\<close>, at a request with an empty bucket.\<close>

theorem empty_storage_field_shadows_environment_witness:
  "environ (example_world storage_env) ''S3_BUCKET'' = Some ''images'' \<and>
   truthy (dict_get (map_of [(''prompt'', PyStr ''a red bicycle''), (''s3_bucket'', PyStr '''')])
      ''prompt'' PyNone) \<and>
   map_of [(''prompt'', PyStr ''a red bicycle''), (''s3_bucket'', PyStr '''')] ''s3_bucket'' =
      Some (PyStr '''') \<and>
   generate_image (example_world storage_env)
      (Inr (PyDict [(''prompt'', PyStr ''a red bicycle''), (''s3_bucket'', PyStr '''')])) =
     \<lparr>response =
        (ErrorBody (Literal
           ''S3 configuration missing. Provide in request or set in environment variables''), 400),
      gateway_calls = [], sink_calls = []\<rparr>"
  using empty_storage_field_shadows_environment
    [of "[(''prompt'', PyStr ''a red bicycle''), (''s3_bucket'', PyStr '''')]"
        "example_world storage_env"]
  by (simp add: dict_get_def storage_env_def example_world_def)

end
